theory Spec2Isabelle
  imports Main "HOL-Library.Multiset"
begin

section \<open>Data model\<close>

text \<open>
  The application is a Flask program (\<^verbatim>\<open>app.py\<close>) over three tables. The rows are
  records; the session is the dictionary that the handlers read with
  \<^verbatim>\<open>session.get\<close> and write with \<^verbatim>\<open>session[k] = v\<close> and
  \<^verbatim>\<open>session.pop\<close>.

  The framework keeps the messages passed to \<^verbatim>\<open>flash\<close> in the same session, under
  the key \<^verbatim>\<open>_flashes\<close>, until a template shows them. The state splits the session
  accordingly: the field \<open>session\<close> holds the entries the application writes, the field
  \<open>flashes\<close> holds the pending messages of the entry \<^verbatim>\<open>_flashes\<close>, in the order
  and with the arguments of the calls; \<open>flask_session\<close> below puts the two together
  again. The templates are not among the sources, so the removal of shown messages is
  not part of the state; a redirect renders no template. What the form library keeps
  in the session for itself is not part of the state either.
\<close>

record User =
  username :: string
  password :: string
  role :: string

record Movie =
  movie_id :: nat
  title :: string
  description :: string

record Rating =
  rating_id :: nat
  name :: string
  movie :: string
  stars :: int
  remarks :: string
  created_at :: nat

text \<open>The data carried by the three forms (\<^verbatim>\<open>form.<field>.data\<close>).\<close>

record LoginForm =
  username_data :: string
  password_data :: string

record RateForm =
  name_data :: string
  movieList_data :: string
  stars_data :: int
  remarks_data :: string

record MovieForm =
  title_data :: string
  description_data :: string

datatype http_method = GET | POST

record world =
  session :: "string \<rightharpoonup> string"
  users :: "User list"
  movies :: "Movie list"
  ratings :: "Rating list"
  flashes :: "(string \<times> string) list"

text \<open>
  What \<^verbatim>\<open>app.py\<close> imports and does not define: the two password functions of
  the credential library, the validators of the three form classes, and the clock
  that stamps a new rating. They are parameters of every handler.
\<close>

record env =
  generate_password_hash :: "string \<Rightarrow> string"
  check_password_hash :: "string \<Rightarrow> string \<Rightarrow> bool"
  LoginForm_validate :: "LoginForm \<Rightarrow> bool"
  RateForm_validate :: "(string \<times> string) list \<Rightarrow> RateForm \<Rightarrow> bool"
  MovieForm_validate :: "MovieForm \<Rightarrow> bool"
  now :: nat

datatype template_value =
    Str string
  | Movie_list "Movie list"
  | Rating_list "Rating list"
  | Login_form LoginForm
  | Rate_form "(string \<times> string) list" RateForm
  | Movie_form MovieForm

text \<open>
  A handler returns \<^verbatim>\<open>redirect(url_for(endpoint))\<close>, or
  \<^verbatim>\<open>render_template(name, **context)\<close>, or is ended by the 404 that
  \<^verbatim>\<open>get_or_404\<close> raises, or by an exception that nothing catches, which the
  server answers with the 500.
\<close>

datatype response =
    Redirect string
  | Render_template string "(string \<times> template_value) list"
  | Not_found
  | Internal_server_error

section \<open>Collaborators\<close>

text \<open>\<^verbatim>\<open>flash(message, category)\<close> appends to the pending messages of the session.\<close>

definition flash :: "string \<Rightarrow> string \<Rightarrow> world \<Rightarrow> world" where
  "flash message category st = st\<lparr>flashes := flashes st @ [(message, category)]\<rparr>"

text \<open>\<^verbatim>\<open>form.validate_on_submit()\<close>: the request is a submission and the form validates.\<close>

definition validate_on_submit :: "http_method \<Rightarrow> bool \<Rightarrow> bool" where
  "validate_on_submit m valid \<longleftrightarrow> m = POST \<and> valid"

text \<open>\<^verbatim>\<open>User.query.filter_by(username=n).first()\<close>\<close>

definition filter_by_username_first :: "string \<Rightarrow> User list \<Rightarrow> User option" where
  "filter_by_username_first n us = find (\<lambda>u. username u = n) us"

text \<open>
  \<^verbatim>\<open>Movie.query.get_or_404(id)\<close>. The route takes any run of digits as
  \<^verbatim>\<open>id\<close>, and the key column of the database is a signed 64-bit integer: from
  \<open>2 ^ 63\<close> on, binding the identifier to the query raises \<^verbatim>\<open>OverflowError\<close>,
  which nothing catches. Below that bound the row of that key is returned, or the 404
  is raised. \<open>Inl\<close> carries the response that ends the request.
\<close>

definition get_or_404 :: "nat \<Rightarrow> Movie list \<Rightarrow> response + Movie" where
  "get_or_404 i ms =
     (if 2 ^ 63 \<le> i then Inl Internal_server_error
      else case find (\<lambda>m. movie_id m = i) ms of
             None \<Rightarrow> Inl Not_found
           | Some mv \<Rightarrow> Inr mv)"

text \<open>
  Modelled from the spec: the table declarations (\<^verbatim>\<open>models.py\<close>) are not among the
  sources. A new row gets an auto-assigned identifier that no stored row has, and a new
  rating gets the creation time of the server clock.
\<close>

definition next_id :: "nat list \<Rightarrow> nat" where
  "next_id ids = Suc (fold max ids 0)"

definition add_Rating :: "env \<Rightarrow> RateForm \<Rightarrow> Rating list \<Rightarrow> Rating list" where
  "add_Rating E form rs =
     rs @ [\<lparr>rating_id = next_id (map rating_id rs),
            name = name_data form,
            movie = movieList_data form,
            stars = stars_data form,
            remarks = remarks_data form,
            created_at = now E\<rparr>]"

definition add_Movie :: "MovieForm \<Rightarrow> Movie list \<Rightarrow> Movie list" where
  "add_Movie form ms =
     ms @ [\<lparr>movie_id = next_id (map movie_id ms),
            title = title_data form,
            description = description_data form\<rparr>]"

text \<open>
  \<^verbatim>\<open>Rating.query.order_by(Rating.created_at.desc()).all()\<close>: latest first, rows of
  equal creation time in the order of the table.
\<close>

definition order_by_created_at_desc :: "Rating list \<Rightarrow> Rating list" where
  "order_by_created_at_desc rs = sort_key (\<lambda>r. - int (created_at r)) rs"

section \<open>Database setup\<close>

text \<open>
  The block run when the module is loaded: \<^verbatim>\<open>db.create_all()\<close> creates missing
  tables and leaves rows alone; the two default accounts are added when no user is
  named \<^verbatim>\<open>admin\<close>.
\<close>

definition bootstrap :: "env \<Rightarrow> world \<Rightarrow> world" where
  "bootstrap E st =
     (if filter_by_username_first ''admin'' (users st) = None then
        let admin = \<lparr>username = ''admin'',
                     password = generate_password_hash E ''admin123'',
                     role = ''admin''\<rparr>;
            viewer = \<lparr>username = ''viewer'',
                      password = generate_password_hash E ''viewer123'',
                      role = ''viewer''\<rparr>
        in st\<lparr>users := users st @ [admin, viewer]\<rparr>
      else st)"

text \<open>Run as a script, the same block is executed a second time before the server starts.\<close>

definition main_program :: "env \<Rightarrow> world \<Rightarrow> world" where
  "main_program E st = bootstrap E (bootstrap E st)"

section \<open>Route handlers\<close>

definition index :: "world \<Rightarrow> response \<times> world" where
  "index st =
     (Render_template ''index.html''
        [(''title'', Str ''Home''), (''movies'', Movie_list (movies st))], st)"

definition login :: "env \<Rightarrow> http_method \<Rightarrow> LoginForm \<Rightarrow> world \<Rightarrow> response \<times> world" where
  "login E m form st =
     (let page = Render_template ''login.html''
                   [(''form'', Login_form form), (''title'', Str ''Login'')]
      in if validate_on_submit m (LoginForm_validate E form) then
           (case filter_by_username_first (username_data form) (users st) of
              None \<Rightarrow> (page, flash ''Invalid credentials'' ''danger'' st)
            | Some user \<Rightarrow>
                if check_password_hash E (password user) (password_data form) then
                  let st1 = st\<lparr>session := (session st)(''user'' \<mapsto> username user)\<rparr>;
                      st2 = st1\<lparr>session := (session st1)(''role'' \<mapsto> role user)\<rparr>;
                      st3 = flash ''Login successful!'' ''success'' st2
                  in if session st3 ''role'' = Some ''viewer'' then (Redirect ''view'', st3)
                     else if session st3 ''role'' = Some ''admin'' then
                       (Redirect ''manage_movies'', st3)
                     else (page, st3)
                else (page, flash ''Invalid credentials'' ''danger'' st))
         else (page, st))"

definition logout :: "world \<Rightarrow> response \<times> world" where
  "logout st =
     (let st1 = st\<lparr>session := (session st)(''user'' := None)\<rparr>;
          st2 = st1\<lparr>session := (session st1)(''role'' := None)\<rparr>
      in (Redirect ''index'', flash ''You have been logged out.'' ''info'' st2))"

definition rate :: "env \<Rightarrow> http_method \<Rightarrow> RateForm \<Rightarrow> world \<Rightarrow> response \<times> world" where
  "rate E m form st =
     (let choices = map (\<lambda>m. (title m, title m)) (movies st)
      in if validate_on_submit m (RateForm_validate E choices form) then
           (Redirect ''rate'',
            flash ''Rating submitted successfully!'' ''success''
              (st\<lparr>ratings := add_Rating E form (ratings st)\<rparr>))
         else
           (Render_template ''rate.html''
              [(''form'', Rate_form choices form),
               (''ratings'', Rating_list (order_by_created_at_desc (ratings st)))], st))"

definition manage_movies :: "world \<Rightarrow> response \<times> world" where
  "manage_movies st =
     (if session st ''role'' \<noteq> Some ''admin'' then
        (Redirect ''index'', flash ''Access denied.'' ''danger'' st)
      else
        (Render_template ''manage_movies.html'' [(''movies'', Movie_list (movies st))], st))"

definition add_movie :: "env \<Rightarrow> http_method \<Rightarrow> MovieForm \<Rightarrow> world \<Rightarrow> response \<times> world" where
  "add_movie E m form st =
     (if session st ''role'' \<noteq> Some ''admin'' then
        (Redirect ''index'', flash ''Access denied.'' ''danger'' st)
      else if validate_on_submit m (MovieForm_validate E form) then
        (Redirect ''manage_movies'',
         flash ''Movie added successfully!'' ''success''
           (st\<lparr>movies := add_Movie form (movies st)\<rparr>))
      else (Render_template ''add_movie.html'' [(''form'', Movie_form form)], st))"

text \<open>
  \<^verbatim>\<open>MovieForm(obj=movie)\<close>: every field is filled from the stored movie first; on a
  submission, a field that the posted body holds takes the posted value, and a field
  that the body lacks keeps the stored one.
\<close>

record MovieForm_body =
  title_posted :: "string option"
  description_posted :: "string option"

definition MovieForm_obj :: "http_method \<Rightarrow> MovieForm_body \<Rightarrow> Movie \<Rightarrow> MovieForm" where
  "MovieForm_obj m posted mv =
     \<lparr>title_data =
        (if m = POST then (case title_posted posted of Some t \<Rightarrow> t | None \<Rightarrow> title mv)
         else title mv),
      description_data =
        (if m = POST
         then (case description_posted posted of Some d \<Rightarrow> d | None \<Rightarrow> description mv)
         else description mv)\<rparr>"

definition edit_movie ::
  "env \<Rightarrow> nat \<Rightarrow> http_method \<Rightarrow> MovieForm_body \<Rightarrow> world \<Rightarrow> response \<times> world" where
  "edit_movie E i m posted st =
     (if session st ''role'' \<noteq> Some ''admin'' then
        (Redirect ''index'', flash ''Access denied.'' ''danger'' st)
      else
        (case get_or_404 i (movies st) of
           Inl raised \<Rightarrow> (raised, st)
         | Inr mv \<Rightarrow>
             let form = MovieForm_obj m posted mv
             in if validate_on_submit m (MovieForm_validate E form) then
                  (Redirect ''manage_movies'',
                   flash ''Movie updated!'' ''success''
                     (st\<lparr>movies :=
                          map (\<lambda>x. if movie_id x = movie_id mv
                                    then x\<lparr>title := title_data form,
                                           description := description_data form\<rparr>
                                    else x) (movies st)\<rparr>))
                else (Render_template ''edit.html'' [(''form'', Movie_form form)], st)))"

definition delete_movie :: "nat \<Rightarrow> world \<Rightarrow> response \<times> world" where
  "delete_movie i st =
     (if session st ''role'' \<noteq> Some ''admin'' then
        (Redirect ''index'', flash ''Access denied.'' ''danger'' st)
      else
        (case get_or_404 i (movies st) of
           Inl raised \<Rightarrow> (raised, st)
         | Inr mv \<Rightarrow>
             (Redirect ''manage_movies'',
              flash ''Movie deleted!'' ''info''
                (st\<lparr>movies := filter (\<lambda>x. movie_id x \<noteq> movie_id mv) (movies st)\<rparr>))))"

definition view :: "world \<Rightarrow> response \<times> world" where
  "view st =
     (if session st ''role'' \<noteq> Some ''viewer'' then
        (Redirect ''index'', flash ''Access denied.'' ''danger'' st)
      else (Render_template ''view.html'' [(''ratings'', Rating_list (ratings st))], st))"

section \<open>Routing\<close>

text \<open>
  The \<^verbatim>\<open>@app.route\<close> table: a request names its route, and where the rule
  accepts \<^verbatim>\<open>POST\<close> it carries the method and the posted form.
\<close>

datatype request =
    Req_index
  | Req_login http_method LoginForm
  | Req_logout
  | Req_rate http_method RateForm
  | Req_manage
  | Req_add_movie http_method MovieForm
  | Req_edit_movie nat http_method MovieForm_body
  | Req_delete_movie nat
  | Req_view

fun handle :: "env \<Rightarrow> request \<Rightarrow> world \<Rightarrow> response \<times> world" where
  "handle E Req_index st = index st"
| "handle E (Req_login m form) st = login E m form st"
| "handle E Req_logout st = logout st"
| "handle E (Req_rate m form) st = rate E m form st"
| "handle E Req_manage st = manage_movies st"
| "handle E (Req_add_movie m form) st = add_movie E m form st"
| "handle E (Req_edit_movie i m form) st = edit_movie E i m form st"
| "handle E (Req_delete_movie i) st = delete_movie i st"
| "handle E Req_view st = view st"

section \<open>The authorization guard of the specification\<close>

datatype route =
    Index | Login | Logout | Rate | Manage | Add_movie | Edit_movie nat | Delete_movie nat | View

fun route_of :: "request \<Rightarrow> route" where
  "route_of Req_index = Index"
| "route_of (Req_login m form) = Login"
| "route_of Req_logout = Logout"
| "route_of (Req_rate m form) = Rate"
| "route_of Req_manage = Manage"
| "route_of (Req_add_movie m form) = Add_movie"
| "route_of (Req_edit_movie i m form) = Edit_movie i"
| "route_of (Req_delete_movie i) = Delete_movie i"
| "route_of Req_view = View"

text \<open>
  The handlers have no guard function: each guarded handler starts with its own
  comparison. The two definitions below follow the words of the specification instead
  (the table of routes with their required role, \<open>None\<close> for "none", and the decision
  "allow iff the session role equals the required role; when none is required, always
  allow"), to be compared with what the handlers do.
\<close>

fun spec_required_role :: "route \<Rightarrow> string option" where
  "spec_required_role Index = None"
| "spec_required_role Login = None"
| "spec_required_role Logout = None"
| "spec_required_role Rate = None"
| "spec_required_role Manage = Some ''admin''"
| "spec_required_role Add_movie = Some ''admin''"
| "spec_required_role (Edit_movie i) = Some ''admin''"
| "spec_required_role (Delete_movie i) = Some ''admin''"
| "spec_required_role View = Some ''viewer''"

definition spec_guard_allows :: "string option \<Rightarrow> string option \<Rightarrow> bool" where
  "spec_guard_allows required_role session_role \<longleftrightarrow>
     required_role = None \<or> session_role = required_role"

text \<open>
  The outcome of a handler that refused the request: the redirect to \<^verbatim>\<open>index\<close>
  together with the flashed \<^verbatim>\<open>Access denied.\<close> message.
\<close>

definition access_denied :: "world \<Rightarrow> response \<times> world \<Rightarrow> bool" where
  "access_denied st out \<longleftrightarrow>
     fst out = Redirect ''index'' \<and>
     flashes (snd out) = flashes st @ [(''Access denied.'', ''danger'')]"

section \<open>The session as the framework stores it\<close>

text \<open>
  The whole session dictionary: the entries of the application, and under the key
  \<^verbatim>\<open>_flashes\<close> the list of the pending (category, message) pairs, the key being
  absent while nothing is pending.
\<close>

datatype session_value = Text string | Flashes "(string \<times> string) list"

definition flask_session :: "world \<Rightarrow> string \<rightharpoonup> session_value" where
  "flask_session st =
     (\<lambda>k. if k = ''_flashes'' then
             (if flashes st = [] then None
              else Some (Flashes (map (\<lambda>(message, category). (category, message)) (flashes st))))
           else map_option Text (session st k))"

section \<open>Concrete inputs\<close>

text \<open>
  A credential library that tags the password, forms that require their fields and
  bound the stars, and a store holding the two default accounts, two movies and two
  ratings. The session is left open.
\<close>

definition example_env :: env where
  "example_env =
     \<lparr>generate_password_hash = (\<lambda>p. ''hash$'' @ p),
      check_password_hash = (\<lambda>h p. h = ''hash$'' @ p),
      LoginForm_validate = (\<lambda>f. username_data f \<noteq> [] \<and> password_data f \<noteq> []),
      RateForm_validate =
        (\<lambda>choices f. name_data f \<noteq> [] \<and> movieList_data f \<in> fst ` set choices \<and>
                      1 \<le> stars_data f \<and> stars_data f \<le> 5),
      MovieForm_validate = (\<lambda>f. title_data f \<noteq> []),
      now = 100\<rparr>"

definition empty_world :: world where
  "empty_world = \<lparr>session = Map.empty, users = [], movies = [], ratings = [], flashes = []\<rparr>"

definition example_world :: "(string \<rightharpoonup> string) \<Rightarrow> world" where
  "example_world s =
     \<lparr>session = s,
      users = [\<lparr>username = ''admin'', password = ''hash$admin123'', role = ''admin''\<rparr>,
               \<lparr>username = ''viewer'', password = ''hash$viewer123'', role = ''viewer''\<rparr>],
      movies = [\<lparr>movie_id = 1, title = ''Inception'', description = ''Dreams''\<rparr>,
                \<lparr>movie_id = 2, title = ''Heat'', description = ''Heist''\<rparr>],
      ratings = [\<lparr>rating_id = 1, name = ''Ann'', movie = ''Heat'', stars = 4,
                   remarks = ''good'', created_at = 10\<rparr>,
                 \<lparr>rating_id = 2, name = ''Bob'', movie = ''Inception'', stars = 5,
                   remarks = ''great'', created_at = 30\<rparr>],
      flashes = []\<rparr>"

definition admin_session :: "string \<rightharpoonup> string" where
  "admin_session = [''user'' \<mapsto> ''admin'', ''role'' \<mapsto> ''admin'']"

definition viewer_session :: "string \<rightharpoonup> string" where
  "viewer_session = [''user'' \<mapsto> ''viewer'', ''role'' \<mapsto> ''viewer'']"

section \<open>Lemmas on the collaborators\<close>

lemma find_distinct_key:
  "x \<in> set xs \<Longrightarrow> distinct (map f xs) \<Longrightarrow> find (\<lambda>y. f y = f x) xs = Some x"
  by (induction xs) (auto simp: image_iff)

lemma find_None_image: "find (\<lambda>x. f x = i) xs = None \<longleftrightarrow> i \<notin> f ` set xs"
  by (induction xs) auto

lemma find_Some_key: "find (\<lambda>x. f x = i) xs = Some y \<Longrightarrow> f y = i \<and> y \<in> set xs"
  by (induction xs) (auto split: if_splits)

lemma find_append_None: "find P xs = None \<Longrightarrow> find P (xs @ ys) = find P ys"
  by (induction xs) (auto split: if_splits)

lemma length_filter_distinct_key:
  "distinct (map f xs) \<Longrightarrow> i \<in> f ` set xs \<Longrightarrow>
     Suc (length (filter (\<lambda>x. f x \<noteq> i) xs)) = length xs"
proof (induction xs)
  case Nil
  then show ?case by simp
next
  case (Cons a xs)
  show ?case
  proof (cases "f a = i")
    case True
    with Cons.prems have "\<forall>x \<in> set xs. f x \<noteq> i"
      by (auto simp: image_iff)
    then have "filter (\<lambda>x. f x \<noteq> i) xs = xs"
      by (simp add: filter_id_conv)
    with True show ?thesis by simp
  next
    case False
    with Cons show ?thesis by auto
  qed
qed

text \<open>The listing of \<^verbatim>\<open>/rate\<close> is the stored ratings, latest first.\<close>

lemma order_by_created_at_desc_sorted:
  "sorted_wrt (\<lambda>a b. created_at b \<le> created_at a) (order_by_created_at_desc rs)"
proof -
  have "sorted (map (\<lambda>r. - int (created_at r)) (sort_key (\<lambda>r. - int (created_at r)) rs))"
    by (rule sorted_sort_key)
  then show ?thesis
    by (simp add: order_by_created_at_desc_def sorted_wrt_map)
qed

lemma order_by_created_at_desc_ties:
  "filter (\<lambda>r. created_at r = t) (order_by_created_at_desc rs) =
     filter (\<lambda>r. created_at r = t) rs"
  using sort_key_stable [of "\<lambda>r. - int (created_at r)" "- int t" rs]
  by (simp add: order_by_created_at_desc_def)

lemma mset_order_by_created_at_desc: "mset (order_by_created_at_desc rs) = mset rs"
  by (simp add: order_by_created_at_desc_def)

text \<open>An auto-assigned identifier is not the identifier of a stored row.\<close>

lemma fold_max_start: "b \<le> fold max ys (b::nat)"
  by (induction ys arbitrary: b) (auto intro: order_trans[OF max.cobounded2])

lemma fold_max_ge: "x \<in> set xs \<Longrightarrow> x \<le> fold max xs (a::nat)"
proof (induction xs arbitrary: a)
  case Nil
  then show ?case by simp
next
  case (Cons y ys)
  show ?case
  proof (cases "x = y")
    case True
    then show ?thesis using fold_max_start[of "max y a" ys] by simp
  next
    case False
    with Cons show ?thesis by simp
  qed
qed

lemma next_id_fresh: "next_id ids \<notin> set ids"
  using fold_max_ge[of "next_id ids" ids 0] by (auto simp: next_id_def)

text \<open>
  Users are created by the setup block only: no handler touches the table, and the
  block leaves an empty table with two users of different names.
\<close>

lemma handle_users: "users (snd (handle E req st)) = users st"
  by (cases req)
    (auto simp: index_def login_def logout_def rate_def manage_movies_def add_movie_def
      edit_movie_def delete_movie_def view_def flash_def Let_def
      split: option.splits sum.splits)

lemma bootstrap_distinct_usernames:
  "distinct (map username (users (bootstrap E empty_world)))"
  by (simp add: bootstrap_def empty_world_def filter_by_username_first_def Let_def)

lemma bootstrap_idem: "bootstrap E (bootstrap E st) = bootstrap E st"
proof (cases "filter_by_username_first ''admin'' (users st)")
  case None
  then have "filter_by_username_first ''admin'' (users (bootstrap E st)) \<noteq> None"
    by (simp add: bootstrap_def filter_by_username_first_def Let_def find_append_None)
  then show ?thesis
    by (simp add: bootstrap_def[of E "bootstrap E st"])
next
  case (Some u)
  then show ?thesis by (simp add: bootstrap_def)
qed

lemma login_not_denied: "\<not> access_denied st (login E m form st)"
  by (simp add: access_denied_def login_def Let_def flash_def split: option.splits)

section \<open>Authorization\<close>

text \<open>
  C1. For every request, access is allowed exactly when the guard of the specification
  allows it: the handler does not answer with the access-denied outcome if and only if
  the route requires no role or the session's role equals the required role. Hence a
  session with role admin is allowed on \<^verbatim>\<open>/manage\<close>, \<^verbatim>\<open>/add_movie\<close>,
  \<^verbatim>\<open>/edit_movie/id\<close>, \<^verbatim>\<open>/delete_movie/id\<close> and denied on \<^verbatim>\<open>/view\<close>;
  a session with role viewer is allowed on \<^verbatim>\<open>/view\<close> and denied on the admin
  routes; a session without role is denied on every guarded route; the routes
  \<^verbatim>\<open>/\<close>, \<^verbatim>\<open>/login\<close>, \<^verbatim>\<open>/logout\<close>, \<^verbatim>\<open>/rate\<close> are always allowed.
\<close>

theorem guard_decision:
  "\<not> access_denied st (handle E req st) \<longleftrightarrow>
     spec_guard_allows (spec_required_role (route_of req)) (session st ''role'')"
proof (cases req)
  case (Req_login m form)
  then show ?thesis
    by (simp add: login_not_denied spec_guard_allows_def)
qed (auto simp: access_denied_def spec_guard_allows_def index_def logout_def rate_def
      manage_movies_def add_movie_def edit_movie_def delete_movie_def view_def flash_def Let_def
      split: option.splits sum.splits)

theorem guard_decision_witness:
  "\<not> access_denied (example_world admin_session)
       (handle example_env Req_manage (example_world admin_session)) \<and>
   access_denied (example_world admin_session)
       (handle example_env Req_view (example_world admin_session)) \<and>
   access_denied (example_world viewer_session)
       (handle example_env (Req_delete_movie 1) (example_world viewer_session)) \<and>
   \<not> access_denied (example_world viewer_session)
       (handle example_env Req_view (example_world viewer_session)) \<and>
   access_denied (example_world Map.empty)
       (handle example_env Req_view (example_world Map.empty)) \<and>
   \<not> access_denied (example_world Map.empty)
       (handle example_env Req_logout (example_world Map.empty))"
  using guard_decision [of "example_world admin_session" example_env Req_manage]
    guard_decision [of "example_world admin_session" example_env Req_view]
    guard_decision [of "example_world viewer_session" example_env "Req_delete_movie 1"]
    guard_decision [of "example_world viewer_session" example_env Req_view]
    guard_decision [of "example_world Map.empty" example_env Req_view]
    guard_decision [of "example_world Map.empty" example_env Req_logout]
  by (simp add: spec_guard_allows_def example_world_def admin_session_def viewer_session_def)

text \<open>
  C2. A denial leaves a message in the session, so the session as a whole does not stay
  as it was: after the denied request of a session without role for \<^verbatim>\<open>/manage\<close>
  the entry \<^verbatim>\<open>_flashes\<close> holds the warning, where it was absent before.
\<close>

theorem denied_session_counterexample:
  "access_denied (example_world Map.empty)
     (handle example_env Req_manage (example_world Map.empty)) \<and>
   flask_session (example_world Map.empty) ''_flashes'' = None \<and>
   flask_session (snd (handle example_env Req_manage (example_world Map.empty))) ''_flashes'' =
     Some (Flashes [(''danger'', ''Access denied.'')]) \<and>
   flask_session (snd (handle example_env Req_manage (example_world Map.empty))) \<noteq>
     flask_session (example_world Map.empty)"
proof -
  let ?w = "example_world Map.empty"
  have d: "access_denied ?w (handle example_env Req_manage ?w)"
    by (simp add: access_denied_def manage_movies_def flash_def example_world_def)
  have b: "flask_session ?w ''_flashes'' = None"
    by (simp add: flask_session_def example_world_def)
  have a: "flask_session (snd (handle example_env Req_manage ?w)) ''_flashes'' =
      Some (Flashes [(''danger'', ''Access denied.'')])"
    by (simp add: flask_session_def manage_movies_def flash_def example_world_def)
  have "flask_session (snd (handle example_env Req_manage ?w)) \<noteq> flask_session ?w"
  proof
    assume "flask_session (snd (handle example_env Req_manage ?w)) = flask_session ?w"
    then have "flask_session (snd (handle example_env Req_manage ?w)) ''_flashes'' =
        flask_session ?w ''_flashes''"
      by simp
    with a b show False by simp
  qed
  with d b a show ?thesis by simp
qed

text \<open>
  C2, as amended. A request that the guard denies (the route requires a role and the
  session's role is not that role) is answered by the redirect to the home view, never
  by the 404, the 500 or any other outcome; the warning \<^verbatim>\<open>Access denied.\<close> of
  category \<^verbatim>\<open>danger\<close> is added to the pending messages of the session; the
  entries \<^verbatim>\<open>user\<close> and \<^verbatim>\<open>role\<close> of the session, the users, the movies
  and the ratings are as before.
\<close>

theorem denied_outcome:
  assumes "spec_required_role (route_of req) = Some r"
    and "session st ''role'' \<noteq> Some r"
  shows "fst (handle E req st) = Redirect ''index'' \<and>
         flashes (snd (handle E req st)) = flashes st @ [(''Access denied.'', ''danger'')] \<and>
         session (snd (handle E req st)) ''user'' = session st ''user'' \<and>
         session (snd (handle E req st)) ''role'' = session st ''role'' \<and>
         users (snd (handle E req st)) = users st \<and>
         movies (snd (handle E req st)) = movies st \<and>
         ratings (snd (handle E req st)) = ratings st"
  using assms
  by (cases req)
    (auto simp: manage_movies_def add_movie_def edit_movie_def delete_movie_def view_def
      flash_def)

theorem denied_outcome_witness:
  "spec_required_role (route_of (Req_delete_movie 1)) = Some ''admin'' \<and>
   session (example_world viewer_session) ''role'' \<noteq> Some ''admin'' \<and>
   fst (handle example_env (Req_delete_movie 1) (example_world viewer_session)) =
     Redirect ''index'' \<and>
   flashes (snd (handle example_env (Req_delete_movie 1) (example_world viewer_session))) =
     [(''Access denied.'', ''danger'')] \<and>
   session (snd (handle example_env (Req_delete_movie 1) (example_world viewer_session)))
     ''user'' = Some ''viewer'' \<and>
   session (snd (handle example_env (Req_delete_movie 1) (example_world viewer_session)))
     ''role'' = Some ''viewer'' \<and>
   movies (snd (handle example_env (Req_delete_movie 1) (example_world viewer_session))) =
     movies (example_world viewer_session)"
proof -
  have h1: "spec_required_role (route_of (Req_delete_movie 1)) = Some ''admin''"
    by simp
  have h2: "session (example_world viewer_session) ''role'' \<noteq> Some ''admin''"
    by (simp add: example_world_def viewer_session_def)
  have w0: "flashes (example_world viewer_session) = []"
      "session (example_world viewer_session) ''user'' = Some ''viewer''"
      "session (example_world viewer_session) ''role'' = Some ''viewer''"
    by (simp_all add: example_world_def viewer_session_def)
  show ?thesis
    using h1 h2 w0 denied_outcome [OF h1 h2, of example_env]
    by simp
qed

section \<open>Login and logout\<close>

text \<open>
  C3. Usernames are unique in the user table. For every stored user and every submitted
  login form that validates, whose username is that user's and whose password
  verifies against the stored hash, login writes that user's name and that user's
  stored role under \<^verbatim>\<open>user\<close> and \<^verbatim>\<open>role\<close> of the session, changes no
  other entry of the application, and redirects a viewer to the ratings view and an
  admin to the movie management.
\<close>

theorem login_success:
  assumes "u \<in> set (users st)"
    and "distinct (map username (users st))"
    and "validate_on_submit m (LoginForm_validate E form)"
    and "username_data form = username u"
    and "check_password_hash E (password u) (password_data form)"
  shows "session (snd (login E m form st)) =
           (session st)(''user'' \<mapsto> username u, ''role'' \<mapsto> role u) \<and>
         (role u = ''viewer'' \<longrightarrow> fst (login E m form st) = Redirect ''view'') \<and>
         (role u = ''admin'' \<longrightarrow> fst (login E m form st) = Redirect ''manage_movies'')"
proof -
  have "filter_by_username_first (username_data form) (users st) = Some u"
    using assms(1,2,4) by (simp add: filter_by_username_first_def find_distinct_key)
  then show ?thesis
    using assms(3,5) by (simp add: login_def flash_def Let_def)
qed

theorem login_success_witness:
  "session (snd (login example_env POST
       \<lparr>username_data = ''viewer'', password_data = ''viewer123''\<rparr>
       (example_world Map.empty))) = viewer_session \<and>
   fst (login example_env POST
       \<lparr>username_data = ''viewer'', password_data = ''viewer123''\<rparr>
       (example_world Map.empty)) = Redirect ''view'' \<and>
   session (snd (login example_env POST
       \<lparr>username_data = ''admin'', password_data = ''admin123''\<rparr>
       (example_world Map.empty))) = admin_session \<and>
   fst (login example_env POST
       \<lparr>username_data = ''admin'', password_data = ''admin123''\<rparr>
       (example_world Map.empty)) = Redirect ''manage_movies''"
  using
    login_success [of "\<lparr>username = ''viewer'', password = ''hash$viewer123'', role = ''viewer''\<rparr>"
      "example_world Map.empty" POST example_env
      "\<lparr>username_data = ''viewer'', password_data = ''viewer123''\<rparr>"]
    login_success [of "\<lparr>username = ''admin'', password = ''hash$admin123'', role = ''admin''\<rparr>"
      "example_world Map.empty" POST example_env
      "\<lparr>username_data = ''admin'', password_data = ''admin123''\<rparr>"]
  by (simp add: example_world_def example_env_def validate_on_submit_def
      viewer_session_def admin_session_def)

text \<open>
  C4. For every login form whose username is the name of no stored user, or whose
  password fails verification against the hash of the stored user of that name, the
  session entries of the application, \<^verbatim>\<open>user\<close> and \<^verbatim>\<open>role\<close> among them,
  are unchanged and the login page is rendered again; when the form was
  submitted and validated, so that the credentials were looked up, the message
  \<^verbatim>\<open>Invalid credentials\<close> of category \<^verbatim>\<open>danger\<close> is flashed.
\<close>

theorem login_failure:
  assumes "\<forall>u \<in> set (users st). username u = username_data form \<longrightarrow>
             \<not> check_password_hash E (password u) (password_data form)"
  shows "session (snd (login E m form st)) = session st \<and>
         fst (login E m form st) =
           Render_template ''login.html''
             [(''form'', Login_form form), (''title'', Str ''Login'')] \<and>
         (validate_on_submit m (LoginForm_validate E form) \<longrightarrow>
            flashes (snd (login E m form st)) =
              flashes st @ [(''Invalid credentials'', ''danger'')])"
proof (cases "filter_by_username_first (username_data form) (users st)")
  case None
  then show ?thesis by (simp add: login_def flash_def Let_def)
next
  case (Some u)
  then have "u \<in> set (users st)" and "username u = username_data form"
    using find_Some_key [of username "username_data form" "users st" u]
    by (simp_all add: filter_by_username_first_def)
  with assms have "\<not> check_password_hash E (password u) (password_data form)"
    by blast
  with Some show ?thesis by (simp add: login_def flash_def Let_def)
qed

theorem login_failure_witness:
  "validate_on_submit POST
     (LoginForm_validate example_env \<lparr>username_data = ''admin'', password_data = ''guess''\<rparr>) \<and>
   login example_env POST \<lparr>username_data = ''admin'', password_data = ''guess''\<rparr>
       (example_world viewer_session) =
     (Render_template ''login.html''
        [(''form'', Login_form \<lparr>username_data = ''admin'', password_data = ''guess''\<rparr>),
         (''title'', Str ''Login'')],
      (example_world viewer_session)\<lparr>flashes := [(''Invalid credentials'', ''danger'')]\<rparr>) \<and>
   session (snd (login example_env POST
       \<lparr>username_data = ''nobody'', password_data = ''admin123''\<rparr>
       (example_world Map.empty))) = Map.empty"
proof -
  have h1: "\<forall>u \<in> set (users (example_world viewer_session)).
      username u = username_data \<lparr>username_data = ''admin'', password_data = ''guess''\<rparr> \<longrightarrow>
      \<not> check_password_hash example_env (password u)
          (password_data \<lparr>username_data = ''admin'', password_data = ''guess''\<rparr>)"
    by (simp add: example_world_def example_env_def)
  have h2: "\<forall>u \<in> set (users (example_world Map.empty)).
      username u = username_data \<lparr>username_data = ''nobody'', password_data = ''admin123''\<rparr> \<longrightarrow>
      \<not> check_password_hash example_env (password u)
          (password_data \<lparr>username_data = ''nobody'', password_data = ''admin123''\<rparr>)"
    by (simp add: example_world_def example_env_def)
  have v: "validate_on_submit POST
     (LoginForm_validate example_env \<lparr>username_data = ''admin'', password_data = ''guess''\<rparr>)"
    by (simp add: validate_on_submit_def example_env_def)
  have w: "users (snd (login example_env POST
             \<lparr>username_data = ''admin'', password_data = ''guess''\<rparr>
             (example_world viewer_session))) = users (example_world viewer_session) \<and>
           movies (snd (login example_env POST
             \<lparr>username_data = ''admin'', password_data = ''guess''\<rparr>
             (example_world viewer_session))) = movies (example_world viewer_session) \<and>
           ratings (snd (login example_env POST
             \<lparr>username_data = ''admin'', password_data = ''guess''\<rparr>
             (example_world viewer_session))) = ratings (example_world viewer_session)"
    by (simp add: login_def flash_def Let_def split: option.splits)
  have f0: "flashes (example_world viewer_session) = []"
    and s0: "session (example_world Map.empty) = Map.empty"
    by (simp_all add: example_world_def)
  show ?thesis
    using v w f0 s0 login_failure [OF h1, of POST] login_failure [OF h2, of POST]
    by (cases "login example_env POST \<lparr>username_data = ''admin'', password_data = ''guess''\<rparr>
          (example_world viewer_session)") simp
qed

text \<open>
  C5. Each logout leaves its message in the session, so the session after two logouts in
  a row is not the session after one: for a logged-in admin, one message is pending
  after the first logout and two are after the second.
\<close>

theorem logout_twice_counterexample:
  "flask_session (snd (logout (example_world admin_session))) ''_flashes'' =
     Some (Flashes [(''info'', ''You have been logged out.'')]) \<and>
   flask_session (snd (logout (snd (logout (example_world admin_session))))) ''_flashes'' =
     Some (Flashes [(''info'', ''You have been logged out.''),
                    (''info'', ''You have been logged out.'')]) \<and>
   flask_session (snd (logout (snd (logout (example_world admin_session))))) \<noteq>
     flask_session (snd (logout (example_world admin_session)))"
proof -
  let ?w = "example_world admin_session"
  have one: "flask_session (snd (logout ?w)) ''_flashes'' =
      Some (Flashes [(''info'', ''You have been logged out.'')])"
    by (simp add: flask_session_def logout_def flash_def Let_def example_world_def)
  have two: "flask_session (snd (logout (snd (logout ?w)))) ''_flashes'' =
      Some (Flashes [(''info'', ''You have been logged out.''),
                     (''info'', ''You have been logged out.'')])"
    by (simp add: flask_session_def logout_def flash_def Let_def example_world_def)
  have "flask_session (snd (logout (snd (logout ?w)))) \<noteq> flask_session (snd (logout ?w))"
  proof
    assume "flask_session (snd (logout (snd (logout ?w)))) = flask_session (snd (logout ?w))"
    then have "flask_session (snd (logout (snd (logout ?w)))) ''_flashes'' =
        flask_session (snd (logout ?w)) ''_flashes''"
      by simp
    with one two show False by simp
  qed
  with one two show ?thesis by simp
qed

text \<open>
  C5, as amended. In every session state, logout removes the entries \<^verbatim>\<open>user\<close>
  and \<^verbatim>\<open>role\<close> from the session and redirects to the home view, and it is
  idempotent on these two entries: after two logouts in a row they are what they are
  after one, absent. Each logout adds its message to the pending messages of the session.
\<close>

theorem logout_clears:
  "session (snd (logout st)) ''user'' = None \<and>
   session (snd (logout st)) ''role'' = None \<and>
   fst (logout st) = Redirect ''index'' \<and>
   session (snd (logout (snd (logout st)))) ''user'' = session (snd (logout st)) ''user'' \<and>
   session (snd (logout (snd (logout st)))) ''role'' = session (snd (logout st)) ''role'' \<and>
   fst (logout (snd (logout st))) = Redirect ''index'' \<and>
   flashes (snd (logout st)) = flashes st @ [(''You have been logged out.'', ''info'')]"
  by (simp add: logout_def flash_def Let_def)

section \<open>Rating submission\<close>

text \<open>
  C6. The handler of \<^verbatim>\<open>/rate\<close> has no guard: its response and its effect on the
  store are the same in every session, and it never answers with the access-denied
  outcome. A submission that validates appends exactly one rating to the stored
  ratings, with the submitted fields, a fresh identifier and the server clock as
  creation time, flashes the success message and redirects to \<^verbatim>\<open>rate\<close>; the page
  then served there lists the stored ratings with the new one, sorted by creation time
  in descending order.
\<close>

theorem rate_open_and_persists:
  "rate E m form (st\<lparr>session := s\<rparr>) =
     (fst (rate E m form st), (snd (rate E m form st))\<lparr>session := s\<rparr>) \<and>
   \<not> access_denied st (rate E m form st) \<and>
   (validate_on_submit m
      (RateForm_validate E (map (\<lambda>x. (title x, title x)) (movies st)) form) \<longrightarrow>
      (\<exists>r. ratings (snd (rate E m form st)) = ratings st @ [r] \<and>
           created_at r = now E \<and> rating_id r \<notin> rating_id ` set (ratings st) \<and>
           name r = name_data form \<and> movie r = movieList_data form \<and>
           stars r = stars_data form \<and> remarks r = remarks_data form \<and>
           (\<exists>listed. fst (rate E' GET form' (snd (rate E m form st))) =
                Render_template ''rate.html''
                  [(''form'', Rate_form (map (\<lambda>x. (title x, title x)) (movies st)) form'),
                   (''ratings'', Rating_list listed)] \<and>
              sorted_wrt (\<lambda>a b. created_at b \<le> created_at a) listed \<and>
              mset listed = mset (ratings st) + {#r#})) \<and>
      fst (rate E m form st) = Redirect ''rate'' \<and>
      flashes (snd (rate E m form st)) =
        flashes st @ [(''Rating submitted successfully!'', ''success'')])"
proof -
  have fresh: "next_id (map rating_id (ratings st)) \<notin> rating_id ` set (ratings st)"
    using next_id_fresh [of "map rating_id (ratings st)"] by simp
  show ?thesis
    using fresh
    by (simp add: rate_def access_denied_def flash_def Let_def add_Rating_def
        validate_on_submit_def order_by_created_at_desc_sorted mset_order_by_created_at_desc)
qed

theorem rate_open_and_persists_witness:
  "validate_on_submit POST
     (RateForm_validate example_env
        (map (\<lambda>x. (title x, title x)) (movies (example_world Map.empty)))
        \<lparr>name_data = ''Cy'', movieList_data = ''Heat'', stars_data = 3, remarks_data = ''ok''\<rparr>) \<and>
   fst (rate example_env POST
        \<lparr>name_data = ''Cy'', movieList_data = ''Heat'', stars_data = 3, remarks_data = ''ok''\<rparr>
        (example_world Map.empty)) = Redirect ''rate'' \<and>
   length (ratings (snd (rate example_env POST
        \<lparr>name_data = ''Cy'', movieList_data = ''Heat'', stars_data = 3, remarks_data = ''ok''\<rparr>
        (example_world Map.empty)))) = 3 \<and>
   flashes (snd (rate example_env POST
        \<lparr>name_data = ''Cy'', movieList_data = ''Heat'', stars_data = 3, remarks_data = ''ok''\<rparr>
        (example_world Map.empty))) = [(''Rating submitted successfully!'', ''success'')]"
proof -
  let ?f = "\<lparr>name_data = ''Cy'', movieList_data = ''Heat'', stars_data = 3,
             remarks_data = ''ok''\<rparr>"
  let ?w = "example_world Map.empty"
  have v: "validate_on_submit POST
     (RateForm_validate example_env (map (\<lambda>x. (title x, title x)) (movies ?w)) ?f)"
    by (simp add: validate_on_submit_def example_env_def example_world_def)
  have l: "length (ratings ?w) = 2" and f: "flashes ?w = []"
    by (simp_all add: example_world_def)
  from v rate_open_and_persists [where E = example_env and m = POST and form = ?f
      and st = ?w and s = Map.empty and E' = example_env and form' = ?f]
  obtain r where "ratings (snd (rate example_env POST ?f ?w)) = ratings ?w @ [r]"
    and "fst (rate example_env POST ?f ?w) = Redirect ''rate''"
    and "flashes (snd (rate example_env POST ?f ?w)) =
           flashes ?w @ [(''Rating submitted successfully!'', ''success'')]"
    by blast
  with v l f show ?thesis by simp
qed

section \<open>Movie management\<close>

text \<open>
  Deletion by an admin for identifiers below \<open>2 ^ 63\<close>. An identifier that a stored
  movie has: the redirect to the management list, and the movie of that identifier and
  nothing else is removed (the movies kept are those of the other identifiers, in their
  order; the management page and the home page then list these; with unique identifiers
  the table is one row shorter). An identifier that no stored movie has: the 404, and
  the whole state is as it was.
\<close>

lemma delete_movie_below_limit:
  assumes "session st ''role'' = Some ''admin''" and "i < 2 ^ 63"
  shows "(i \<in> movie_id ` set (movies st) \<longrightarrow>
            fst (delete_movie i st) = Redirect ''manage_movies'' \<and>
            movies (snd (delete_movie i st)) = filter (\<lambda>x. movie_id x \<noteq> i) (movies st) \<and>
            i \<notin> movie_id ` set (movies (snd (delete_movie i st))) \<and>
            fst (manage_movies (snd (delete_movie i st))) =
              Render_template ''manage_movies.html''
                [(''movies'', Movie_list (filter (\<lambda>x. movie_id x \<noteq> i) (movies st)))] \<and>
            fst (index (snd (delete_movie i st))) =
              Render_template ''index.html''
                [(''title'', Str ''Home''),
                 (''movies'', Movie_list (filter (\<lambda>x. movie_id x \<noteq> i) (movies st)))] \<and>
            (distinct (map movie_id (movies st)) \<longrightarrow>
               Suc (length (movies (snd (delete_movie i st)))) = length (movies st))) \<and>
         (i \<notin> movie_id ` set (movies st) \<longrightarrow> delete_movie i st = (Not_found, st))"
proof (cases "find (\<lambda>m. movie_id m = i) (movies st)")
  case None
  then have "i \<notin> movie_id ` set (movies st)"
    by (simp add: find_None_image)
  with None assms show ?thesis by (simp add: delete_movie_def get_or_404_def)
next
  case (Some mv)
  then have mv: "movie_id mv = i" and "mv \<in> set (movies st)"
    using find_Some_key [of movie_id i "movies st" mv] by simp_all
  then have ex: "i \<in> movie_id ` set (movies st)" by auto
  have res: "delete_movie i st =
      (Redirect ''manage_movies'',
       flash ''Movie deleted!'' ''info''
         (st\<lparr>movies := filter (\<lambda>x. movie_id x \<noteq> i) (movies st)\<rparr>))"
    using Some assms mv by (simp add: delete_movie_def get_or_404_def)
  show ?thesis
    using ex
    by (auto simp: res flash_def manage_movies_def index_def assms length_filter_distinct_key)
qed

lemma delete_movie_below_limit_example:
  "fst (delete_movie 1 (example_world admin_session)) = Redirect ''manage_movies'' \<and>
   movies (snd (delete_movie 1 (example_world admin_session))) =
     [\<lparr>movie_id = 2, title = ''Heat'', description = ''Heist''\<rparr>] \<and>
   delete_movie 7 (example_world admin_session) = (Not_found, example_world admin_session)"
proof -
  have a: "session (example_world admin_session) ''role'' = Some ''admin''"
    by (simp add: example_world_def admin_session_def)
  have ms: "movies (example_world admin_session) =
      [\<lparr>movie_id = 1, title = ''Inception'', description = ''Dreams''\<rparr>,
       \<lparr>movie_id = 2, title = ''Heat'', description = ''Heist''\<rparr>]"
    by (simp add: example_world_def)
  have l1: "(1::nat) < 2 ^ 63" and l7: "(7::nat) < 2 ^ 63"
    by simp_all
  show ?thesis
    using delete_movie_below_limit [OF a l1] delete_movie_below_limit [OF a l7]
    by (simp add: ms)
qed

text \<open>
  C7. Deleting an identifier that no movie has is meant to give the not-found outcome
  (\<^verbatim>\<open># Find the movie by ID, or show 404 if not found\<close>). For the identifier
  \<open>2 ^ 63 = 9223372036854775808\<close>, which the route accepts and no stored movie has,
  the handler of an admin session does not: the lookup raises and the request ends with
  the 500. The state, the movies among it, is as it was.
\<close>

theorem delete_movie_overflow:
  "session (example_world admin_session) ''role'' = Some ''admin'' \<and>
   9223372036854775808 \<notin> movie_id ` set (movies (example_world admin_session)) \<and>
   delete_movie 9223372036854775808 (example_world admin_session) =
     (Internal_server_error, example_world admin_session) \<and>
   fst (delete_movie 9223372036854775808 (example_world admin_session)) \<noteq> Not_found"
  by (simp add: delete_movie_def get_or_404_def example_world_def admin_session_def)

section \<open>Database setup\<close>

text \<open>
  C8. When no user is named \<^verbatim>\<open>admin\<close>, the setup block run at process start adds
  exactly two users after the stored ones: \<^verbatim>\<open>admin\<close> with role admin and
  \<^verbatim>\<open>viewer\<close> with role viewer, each with the hash of its default password
  (\<^verbatim>\<open>admin123\<close>, \<^verbatim>\<open>viewer123\<close>) as password, which is not the plaintext
  whenever the hash of a password differs from the password; movies, ratings and
  session are untouched; from an empty table exactly two users exist afterwards; and
  the second run of the block, when the program is started as a script, changes
  nothing more.
\<close>

theorem bootstrap_seeds:
  assumes "filter_by_username_first ''admin'' (users st) = None"
  shows "users (bootstrap E st) =
           users st @
           [\<lparr>username = ''admin'', password = generate_password_hash E ''admin123'',
             role = ''admin''\<rparr>,
            \<lparr>username = ''viewer'', password = generate_password_hash E ''viewer123'',
             role = ''viewer''\<rparr>] \<and>
         length (users (bootstrap E st)) = length (users st) + 2 \<and>
         (users st = [] \<longrightarrow> length (users (bootstrap E st)) = 2) \<and>
         movies (bootstrap E st) = movies st \<and>
         ratings (bootstrap E st) = ratings st \<and>
         session (bootstrap E st) = session st \<and>
         main_program E st = bootstrap E st \<and>
         ((\<forall>p. generate_password_hash E p \<noteq> p) \<longrightarrow>
            (\<forall>u \<in> set (users (bootstrap E st)) - set (users st).
               password u \<noteq> (if username u = ''admin'' then ''admin123'' else ''viewer123'')))"
  using assms
  by (auto simp: main_program_def bootstrap_idem) (auto simp: bootstrap_def Let_def)

theorem bootstrap_seeds_witness:
  "filter_by_username_first ''admin'' (users empty_world) = None \<and>
   users (bootstrap example_env empty_world) =
     [\<lparr>username = ''admin'', password = ''hash$admin123'', role = ''admin''\<rparr>,
      \<lparr>username = ''viewer'', password = ''hash$viewer123'', role = ''viewer''\<rparr>] \<and>
   length (users (bootstrap example_env empty_world)) = 2 \<and>
   users (bootstrap example_env empty_world) = users (example_world Map.empty) \<and>
   (\<forall>p. generate_password_hash example_env p \<noteq> p) \<and>
   map password (users (bootstrap example_env empty_world)) =
     [''hash$admin123'', ''hash$viewer123'']"
proof -
  have h: "filter_by_username_first ''admin'' (users empty_world) = None"
    by (simp add: filter_by_username_first_def empty_world_def)
  have n: "\<forall>p. generate_password_hash example_env p \<noteq> p"
    by (simp add: example_env_def)
  have e: "users empty_world = []"
    by (simp add: empty_world_def)
  have g: "generate_password_hash example_env ''admin123'' = ''hash$admin123''"
      "generate_password_hash example_env ''viewer123'' = ''hash$viewer123''"
    by (simp_all add: example_env_def)
  show ?thesis
    using h n bootstrap_seeds [OF h, of example_env]
    by (simp add: e g example_world_def)
qed

section \<open>Guard before lookup, and the frame of the session\<close>

text \<open>
  C9. In the handlers of \<^verbatim>\<open>/edit_movie/id\<close> and \<^verbatim>\<open>/delete_movie/id\<close> the
  guard comes before the lookup: in every session whose role is not admin, and for
  every identifier, the outcome is the access-denied redirect to the home view, the
  same whatever movies are stored (so the same whether or not a movie of that
  identifier exists); and the 404 is answered to admin sessions only.
\<close>

theorem guard_before_lookup:
  "(session st ''role'' \<noteq> Some ''admin'' \<longrightarrow>
      edit_movie E i m form (st\<lparr>movies := ms\<rparr>) =
        (Redirect ''index'',
         st\<lparr>movies := ms, flashes := flashes st @ [(''Access denied.'', ''danger'')]\<rparr>) \<and>
      delete_movie i (st\<lparr>movies := ms\<rparr>) =
        (Redirect ''index'',
         st\<lparr>movies := ms, flashes := flashes st @ [(''Access denied.'', ''danger'')]\<rparr>)) \<and>
   (fst (edit_movie E i m form st) = Not_found \<longrightarrow> session st ''role'' = Some ''admin'') \<and>
   (fst (delete_movie i st) = Not_found \<longrightarrow> session st ''role'' = Some ''admin'')"
  by (auto simp: edit_movie_def delete_movie_def flash_def Let_def
      split: sum.splits if_splits)

theorem guard_before_lookup_witness:
  "session (example_world viewer_session) ''role'' \<noteq> Some ''admin'' \<and>
   get_or_404 1 (movies (example_world viewer_session)) \<noteq> Inl Not_found \<and>
   get_or_404 1 [] = Inl Not_found \<and>
   fst (edit_movie example_env 1 POST
         \<lparr>title_posted = Some ''Ronin'', description_posted = Some ''Cars''\<rparr>
         (example_world viewer_session)) =
   fst (edit_movie example_env 1 POST
         \<lparr>title_posted = Some ''Ronin'', description_posted = Some ''Cars''\<rparr>
         ((example_world viewer_session)\<lparr>movies := []\<rparr>)) \<and>
   fst (delete_movie 1 (example_world viewer_session)) = Redirect ''index'' \<and>
   fst (delete_movie 1 ((example_world viewer_session)\<lparr>movies := []\<rparr>)) = Redirect ''index''"
proof -
  let ?w = "example_world viewer_session"
  let ?f = "\<lparr>title_posted = Some ''Ronin'', description_posted = Some ''Cars''\<rparr>"
  have h: "session ?w ''role'' \<noteq> Some ''admin''"
    by (simp add: example_world_def viewer_session_def)
  have g: "get_or_404 1 (movies ?w) \<noteq> Inl Not_found" "get_or_404 1 [] = Inl Not_found"
    by (simp_all add: get_or_404_def example_world_def)
  have same: "?w\<lparr>movies := movies ?w\<rparr> = ?w"
    by simp
  show ?thesis
    using h g
      guard_before_lookup [of ?w example_env 1 POST ?f "movies ?w"]
      guard_before_lookup [of ?w example_env 1 POST ?f "[]"]
    by (simp add: same)
qed

text \<open>
  C10. Every handler other than login and logout, on every request and in every
  state, leaves the session entries of the application as they were, the entries
  \<^verbatim>\<open>user\<close> and \<^verbatim>\<open>role\<close> among them. Login changes these entries only
  when the submitted form validated and the password verified against the stored user
  of the submitted name, and it removes none.
\<close>

theorem session_frame:
  "(route_of req \<noteq> Login \<and> route_of req \<noteq> Logout \<longrightarrow>
      session (snd (handle E req st)) = session st \<and>
      session (snd (handle E req st)) ''user'' = session st ''user'' \<and>
      session (snd (handle E req st)) ''role'' = session st ''role'') \<and>
   (session (snd (login E m form st)) \<noteq> session st \<longrightarrow>
      validate_on_submit m (LoginForm_validate E form) \<and>
      (\<exists>u. filter_by_username_first (username_data form) (users st) = Some u \<and>
           check_password_hash E (password u) (password_data form))) \<and>
   (session st k \<noteq> None \<longrightarrow> session (snd (login E m form st)) k \<noteq> None)"
proof -
  have a: "route_of req \<noteq> Login \<and> route_of req \<noteq> Logout \<longrightarrow>
      session (snd (handle E req st)) = session st"
    by (cases req)
      (auto simp: index_def rate_def manage_movies_def add_movie_def
        edit_movie_def delete_movie_def view_def flash_def Let_def
        split: option.splits sum.splits)
  have b: "session (snd (login E m form st)) \<noteq> session st \<longrightarrow>
      validate_on_submit m (LoginForm_validate E form) \<and>
      (\<exists>u. filter_by_username_first (username_data form) (users st) = Some u \<and>
           check_password_hash E (password u) (password_data form))"
    by (auto simp: login_def flash_def Let_def split: option.splits if_splits)
  have c: "session st k \<noteq> None \<longrightarrow> session (snd (login E m form st)) k \<noteq> None"
    by (auto simp: login_def flash_def Let_def split: option.splits if_splits)
  from a b c show ?thesis by auto
qed

theorem session_frame_witness:
  "route_of (Req_delete_movie 1) \<noteq> Login \<and> route_of (Req_delete_movie 1) \<noteq> Logout \<and>
   session (snd (handle example_env (Req_delete_movie 1) (example_world admin_session))) =
     admin_session \<and>
   session (snd (handle example_env
       (Req_rate POST \<lparr>name_data = ''Cy'', movieList_data = ''Heat'', stars_data = 3,
                       remarks_data = ''ok''\<rparr>)
       (example_world viewer_session))) = viewer_session"
proof -
  have s: "session (example_world admin_session) = admin_session"
      "session (example_world viewer_session) = viewer_session"
    by (simp_all add: example_world_def)
  show ?thesis
    using session_frame [where req = "Req_delete_movie 1" and E = example_env
        and st = "example_world admin_session"]
      session_frame [where req = "Req_rate POST \<lparr>name_data = ''Cy'', movieList_data = ''Heat'',
          stars_data = 3, remarks_data = ''ok''\<rparr>" and E = example_env
        and st = "example_world viewer_session"]
    by (simp add: s)
qed

end
